theory Spec2Isabelle
  imports Main "HOL-Library.Sublist"
begin

section \<open>Data model\<close>

text \<open>
  Modelled from the spec: the enumerations \<open>UserRole\<close> and \<open>ApprovalStatus\<close> are
  imported by \<^verbatim>\<open>src/middleware.ts\<close> from \<^verbatim>\<open>@/types/models\<close>, whose declaration is not
  part of the sources. The spec lists the roles ADMIN, AGENT, EMPLOYEE and USER, and the
  status APPROVED next to "other non-approved states". A decoded JWT is untyped at run
  time, so each enumeration gets one more constructor that carries any other value; the
  middleware only ever compares with \<open>!==\<close> and \<open>===\<close>.
\<close>

datatype UserRole = ADMIN | AGENT | EMPLOYEE | USER | OtherRole string

datatype ApprovalStatus = APPROVED | OtherStatus string

text \<open>The three fields of the decoded session token that the middleware destructures.\<close>

record token =
  role :: UserRole
  approvalStatus :: ApprovalStatus
  isActive :: bool

text \<open>
  The two things the middleware reads from the \<open>NextRequest\<close>: \<open>request.nextUrl.pathname\<close>
  and \<open>request.url\<close>, the full URL as a string. Whatever else a request carries lives in
  the record's extension.
\<close>

record request =
  pathname :: string
  url :: string

text \<open>
  A \<open>URL\<close> object as far as the middleware builds one: the base it was resolved against
  (its scheme, host and port are the base's), its path, and its query (without the
  leading question mark; \<open>None\<close> is the null query).
\<close>

record URL =
  url_base :: string
  url_pathname :: string
  url_query :: "string option"

text \<open>\<open>NextResponse.next()\<close> and \<open>NextResponse.redirect(url)\<close>.\<close>

datatype decision = Next | Redirect URL

section \<open>The platform functions the middleware calls\<close>

subsection \<open>Percent-encoding\<close>

definition ascii_alphanumeric :: string where
  "ascii_alphanumeric =
     ''ABCDEFGHIJKLMNOPQRSTUVWXYZabcdefghijklmnopqrstuvwxyz0123456789''"

definition hex_digit :: "nat \<Rightarrow> char" where
  "hex_digit n = ''0123456789ABCDEF'' ! (n mod 16)"

definition percent_encode_byte :: "char \<Rightarrow> string" where
  "percent_encode_byte c =
     [CHR ''%'', hex_digit (of_char c div 16), hex_digit (of_char c mod 16)]"

definition hex_val :: "char \<Rightarrow> nat option" where
  "hex_val c =
     (let n = (of_char c :: nat) in
      if 48 \<le> n \<and> n \<le> 57 then Some (n - 48)
      else if 65 \<le> n \<and> n \<le> 70 then Some (n - 55)
      else if 97 \<le> n \<and> n \<le> 102 then Some (n - 87)
      else None)"

text \<open>
  Percent-decoding of a byte sequence: a percent sign followed by two hexadecimal digits
  is the byte they denote; any other byte, also a percent sign not followed by two such
  digits, stays.
\<close>

fun percent_decode :: "string \<Rightarrow> string" where
  "percent_decode (c # h # l # cs) =
     (if c = CHR ''%'' then
        (case hex_val h of
           None \<Rightarrow> c # percent_decode (h # l # cs)
         | Some a \<Rightarrow>
             (case hex_val l of
                None \<Rightarrow> c # percent_decode (h # l # cs)
              | Some b \<Rightarrow> char_of (16 * a + b) # percent_decode cs))
      else c # percent_decode (h # l # cs))"
| "percent_decode cs = cs"

subsection \<open>\<open>encodeURI\<close>\<close>

text \<open>
  ECMAScript's \<open>encodeURI\<close> on a string given as its UTF-8 bytes: the reserved and the
  unescaped URI characters and the number sign stay, every other byte becomes a percent
  sign and two upper-case hexadecimal digits.
\<close>

definition uriReserved :: string where
  "uriReserved = '';/?:@&=+$,''"

definition uriMark :: string where
  "uriMark = [CHR ''-'', CHR ''_'', CHR ''.'', CHR ''!'', CHR ''~'', CHR ''*'', CHR 0x27,
              CHR ''('', CHR '')'']"

definition encodeURI_unescaped :: "char \<Rightarrow> bool" where
  "encodeURI_unescaped c \<longleftrightarrow>
     c \<in> set (uriReserved @ ascii_alphanumeric @ uriMark @ ''#'')"

definition encodeURI :: "string \<Rightarrow> string" where
  "encodeURI s =
     concat (map (\<lambda>c. if encodeURI_unescaped c then [c] else percent_encode_byte c) s)"

subsection \<open>The query of a URL as a list of name-value pairs\<close>

text \<open>
  The \<open>application/x-www-form-urlencoded\<close> serializer: alphanumerics and the four
  characters \<open>*-._\<close> stay, a space becomes a plus sign, every other byte is
  percent-encoded; pairs are written \<open>name=value\<close> and joined by ampersands.
\<close>

definition urlencoded_byte :: "char \<Rightarrow> string" where
  "urlencoded_byte c =
     (if c = CHR '' '' then ''+''
      else if c \<in> set (ascii_alphanumeric @ ''*-._'') then [c]
      else percent_encode_byte c)"

definition urlencoded_string :: "string \<Rightarrow> string" where
  "urlencoded_string s = concat (map urlencoded_byte s)"

fun urlencoded_serialize :: "(string \<times> string) list \<Rightarrow> string" where
  "urlencoded_serialize [] = []"
| "urlencoded_serialize [p] = urlencoded_string (fst p) @ ''='' @ urlencoded_string (snd p)"
| "urlencoded_serialize (p # ps) =
     urlencoded_string (fst p) @ ''='' @ urlencoded_string (snd p) @ ''&'' @
     urlencoded_serialize ps"

text \<open>
  The \<open>application/x-www-form-urlencoded\<close> parser: the input is split at ampersands,
  empty pieces are dropped, each piece is split at its first equals sign (the value is
  empty when there is none), plus signs become spaces and both halves are
  percent-decoded.
\<close>

fun split_on :: "char \<Rightarrow> string \<Rightarrow> string list" where
  "split_on d [] = [[]]"
| "split_on d (c # cs) =
     (if c = d then [] # split_on d cs
      else (case split_on d cs of [] \<Rightarrow> [[c]] | x # xs \<Rightarrow> (c # x) # xs))"

definition plus_to_space :: "char \<Rightarrow> char" where
  "plus_to_space c = (if c = CHR ''+'' then CHR '' '' else c)"

definition urlencoded_parse_pair :: "string \<Rightarrow> string \<times> string" where
  "urlencoded_parse_pair s =
     (let n = takeWhile (\<lambda>c. c \<noteq> CHR ''='') s;
          v = (case dropWhile (\<lambda>c. c \<noteq> CHR ''='') s of [] \<Rightarrow> [] | _ # r \<Rightarrow> r)
      in (percent_decode (map plus_to_space n), percent_decode (map plus_to_space v)))"

definition urlencoded_parse :: "string \<Rightarrow> (string \<times> string) list" where
  "urlencoded_parse s =
     map urlencoded_parse_pair (filter (\<lambda>x. x \<noteq> []) (split_on CHR ''&'' s))"

subsection \<open>\<open>new URL\<close> and \<open>searchParams\<close>\<close>

text \<open>
  \<open>new URL(ref, base)\<close> for the references the middleware passes: an absolute path,
  possibly followed by a question mark and a query, with no fragment. The result takes
  its origin from the base, its path is the reference up to the question mark and its
  query is what follows it.
\<close>

definition new_URL :: "string \<Rightarrow> string \<Rightarrow> URL" where
  "new_URL ref b =
     \<lparr>url_base = b,
      url_pathname = takeWhile (\<lambda>c. c \<noteq> CHR ''?'') ref,
      url_query = (case dropWhile (\<lambda>c. c \<noteq> CHR ''?'') ref of
                     [] \<Rightarrow> None
                   | _ # q \<Rightarrow> Some q)\<rparr>"

definition searchParams :: "URL \<Rightarrow> (string \<times> string) list" where
  "searchParams u = (case url_query u of None \<Rightarrow> [] | Some q \<Rightarrow> urlencoded_parse q)"

text \<open>
  \<open>searchParams.set(name, value)\<close>: the first pair of that name takes the value and the
  other pairs of that name go; without such a pair, the pair is appended. The URL's
  query becomes the serialized list, or null when that is empty.
\<close>

fun replace_first :: "string \<Rightarrow> string \<Rightarrow> (string \<times> string) list \<Rightarrow> (string \<times> string) list" where
  "replace_first n v [] = []"
| "replace_first n v (p # ps) =
     (if fst p = n then (n, v) # filter (\<lambda>q. fst q \<noteq> n) ps
      else p # replace_first n v ps)"

definition searchParams_set :: "string \<Rightarrow> string \<Rightarrow> URL \<Rightarrow> URL" where
  "searchParams_set n v u =
     (let ps = searchParams u;
          ps' = (if list_ex (\<lambda>p. fst p = n) ps then replace_first n v ps
                 else ps @ [(n, v)]);
          q = urlencoded_serialize ps'
      in u\<lparr>url_query := (if q = [] then None else Some q)\<rparr>)"

text \<open>What the redirect's \<open>Location\<close> shows after the origin: the path and the query.\<close>

definition path_and_query :: "URL \<Rightarrow> string" where
  "path_and_query u =
     url_pathname u @ (case url_query u of None \<Rightarrow> [] | Some q \<Rightarrow> CHR ''?'' # q)"

section \<open>The middleware\<close>

definition publicRoutes :: "string list" where
  "publicRoutes =
     [''/'',
      ''/login'',
      ''/register'',
      ''/register/agent'',
      ''/register/employee'',
      ''/approval'',
      ''/forgot-password'',
      ''/reset-password'',
      ''/map'',
      ''/rate'',
      ''/callback'']"

definition publicApiRoutes :: "string list" where
  "publicApiRoutes =
     [''/api/public/'',
      ''/api/agents/nearby'',
      ''/api/auth/'',
      ''/api/users/search'',
      ''/api/ratings'',
      ''/api/callbacks'',
      ''/api/questions'',
      ''/api/complaints'',
      ''/api/locations'',
      ''/api/locations/search'',
      ''/api/locations/autocomplete'',
      ''/api/locations/geocode'',
      ''/api/locations/reverse-geocode'']"

text \<open>\<open>publicRoutes.some((route) => pathname === route || pathname.startsWith(`${route}/`))\<close>\<close>

definition isPublicRoute :: "string \<Rightarrow> bool" where
  "isPublicRoute p =
     list_ex (\<lambda>route. p = route \<or> prefix (route @ ''/'') p) publicRoutes"

text \<open>\<open>publicApiRoutes.some((route) => pathname.startsWith(route))\<close>\<close>

definition isPublicApiRoute :: "string \<Rightarrow> bool" where
  "isPublicApiRoute p = list_ex (\<lambda>route. prefix route p) publicApiRoutes"

text \<open>The condition of the first \<open>if\<close>, "Allow access to public assets".\<close>

definition isStaticAsset :: "string \<Rightarrow> bool" where
  "isStaticAsset p \<longleftrightarrow>
     prefix ''/_next'' p \<or> prefix ''/images'' p \<or> prefix ''/fonts'' p \<or>
     prefix ''/favicon'' p"

text \<open>
  The paths that fall through both the asset test and the public test, and so reach the
  part of the middleware marked "Protected routes".
\<close>

definition isProtected :: "string \<Rightarrow> bool" where
  "isProtected p \<longleftrightarrow> \<not> isStaticAsset p \<and> \<not> (isPublicRoute p \<or> isPublicApiRoute p)"

text \<open>
  The function \<open>middleware\<close>. Its second argument is what \<open>getToken\<close> resolved to: the
  decoded token, or \<open>None\<close> for \<open>null\<close>.
\<close>

definition middleware :: "'a request_scheme \<Rightarrow> token option \<Rightarrow> decision" where
  "middleware request tok =
     (if isStaticAsset (pathname request) then Next
      else if isPublicRoute (pathname request) \<or> isPublicApiRoute (pathname request) then
        (case tok of
           None \<Rightarrow> Next
         | Some t \<Rightarrow>
             if pathname request = ''/login'' \<or> prefix ''/register'' (pathname request) then
               (if role t \<noteq> ADMIN \<and> role t \<noteq> USER \<and> approvalStatus t \<noteq> APPROVED
                then Redirect (new_URL ''/approval'' (url request))
                else if role t = ADMIN then Redirect (new_URL ''/admin'' (url request))
                else if role t = AGENT then Redirect (new_URL ''/agent'' (url request))
                else if role t = EMPLOYEE then Redirect (new_URL ''/employee'' (url request))
                else Redirect (new_URL ''/'' (url request)))
             else Next)
      else
        (case tok of
           None \<Rightarrow>
             Redirect (searchParams_set ''callbackUrl'' (encodeURI (url request))
                         (new_URL ''/login'' (url request)))
         | Some t \<Rightarrow>
             if \<not> isActive t then
               Redirect (new_URL ''/login?error=Account%20is%20inactive'' (url request))
             else if role t \<noteq> ADMIN \<and> role t \<noteq> USER \<and> approvalStatus t \<noteq> APPROVED then
               Redirect (new_URL ''/approval'' (url request))
             else if prefix ''/admin'' (pathname request) \<and> role t \<noteq> ADMIN then
               Redirect (new_URL ''/'' (url request))
             else if prefix ''/agent'' (pathname request) \<and> role t \<noteq> AGENT then
               Redirect (new_URL ''/'' (url request))
             else if prefix ''/employee'' (pathname request) \<and> role t \<noteq> EMPLOYEE then
               Redirect (new_URL ''/'' (url request))
             else Next))"

text \<open>The path a decision redirects to, if it redirects.\<close>

definition redirect_path :: "decision \<Rightarrow> string option" where
  "redirect_path d = (case d of Next \<Rightarrow> None | Redirect u \<Rightarrow> Some (url_pathname u))"

text \<open>The path and query a decision redirects to, without the origin.\<close>

definition redirect_location :: "decision \<Rightarrow> string option" where
  "redirect_location d =
     (case d of Next \<Rightarrow> None | Redirect u \<Rightarrow> Some (path_and_query u))"

section \<open>Percent-encoding and the query of a URL\<close>

lemma below_16:
  fixes m :: nat
  assumes "m < 16"
  shows "m \<in> {0, 1, 2, 3, 4, 5, 6, 7, 8, 9, 10, 11, 12, 13, 14, 15}"
proof -
  have "{..<16::nat} = {0, 1, 2, 3, 4, 5, 6, 7, 8, 9, 10, 11, 12, 13, 14, 15}"
    by (simp add: lessThan_nat_numeral lessThan_Suc insert_commute)
  with assms show ?thesis by blast
qed

lemma hex_val_hex_digit: "hex_val (hex_digit n) = Some (n mod 16)"
proof -
  have "n mod 16 < 16" by simp
  then have "n mod 16 \<in> {0, 1, 2, 3, 4, 5, 6, 7, 8, 9, 10, 11, 12, 13, 14, 15}"
    by (rule below_16)
  then show ?thesis
    unfolding hex_digit_def by (elim insertE emptyE) (simp_all add: hex_val_def)
qed

lemma hex_digit_not_special:
  "hex_digit n \<noteq> CHR ''+''" "hex_digit n \<noteq> CHR ''&''" "hex_digit n \<noteq> CHR ''=''"
proof -
  have "n mod 16 < 16" by simp
  then have m: "n mod 16 \<in> {0, 1, 2, 3, 4, 5, 6, 7, 8, 9, 10, 11, 12, 13, 14, 15}"
    by (rule below_16)
  from m show "hex_digit n \<noteq> CHR ''+''"
    unfolding hex_digit_def by (elim insertE emptyE) simp_all
  from m show "hex_digit n \<noteq> CHR ''&''"
    unfolding hex_digit_def by (elim insertE emptyE) simp_all
  from m show "hex_digit n \<noteq> CHR ''=''"
    unfolding hex_digit_def by (elim insertE emptyE) simp_all
qed

lemma percent_decode_plain:
  "c \<noteq> CHR ''%'' \<Longrightarrow> percent_decode (c # cs) = c # percent_decode cs"
proof (cases cs)
  case Nil
  then show ?thesis by simp
next
  case (Cons h hs)
  assume "c \<noteq> CHR ''%''"
  then show ?thesis using Cons by (cases hs) simp_all
qed

lemma char_of_div_mod: "char_of (16 * ((of_char c :: nat) div 16 mod 16) + (of_char c :: nat) mod 16) = c"
proof -
  have "(of_char c :: nat) < 256" by simp
  then have "(of_char c :: nat) div 16 < 16" by arith
  then have "16 * ((of_char c :: nat) div 16 mod 16) + (of_char c :: nat) mod 16 = of_char c"
    by simp
  then show ?thesis by simp
qed

lemma percent_decode_encoded:
  "percent_decode (map plus_to_space (percent_encode_byte c @ rest)) =
   c # percent_decode (map plus_to_space rest)"
  by (simp add: percent_encode_byte_def plus_to_space_def hex_digit_not_special
      hex_val_hex_digit char_of_div_mod)

lemma percent_decode_urlencoded_byte:
  "percent_decode (map plus_to_space (urlencoded_byte c @ rest)) =
   c # percent_decode (map plus_to_space rest)"
proof (cases "c = CHR '' ''")
  case True
  then show ?thesis
    by (simp add: urlencoded_byte_def plus_to_space_def percent_decode_plain)
next
  case False
  show ?thesis
  proof (cases "c \<in> set (ascii_alphanumeric @ ''*-._'')")
    case True
    then have "c \<noteq> CHR ''%''" "c \<noteq> CHR ''+''"
      by (auto simp: ascii_alphanumeric_def)
    with True False show ?thesis
      by (simp add: urlencoded_byte_def plus_to_space_def percent_decode_plain)
  next
    case notin: False
    with False show ?thesis
      by (simp only: urlencoded_byte_def if_False percent_decode_encoded)
  qed
qed

lemma percent_decode_urlencoded_string:
  "percent_decode (map plus_to_space (urlencoded_string s)) = s"
proof (induction s)
  case Nil
  then show ?case by (simp add: urlencoded_string_def)
next
  case (Cons c s)
  have "urlencoded_string (c # s) = urlencoded_byte c @ urlencoded_string s"
    by (simp add: urlencoded_string_def)
  with Cons show ?case by (simp only: percent_decode_urlencoded_byte)
qed

lemma percent_encode_byte_no_separator:
  "CHR ''&'' \<notin> set (percent_encode_byte c)" "CHR ''='' \<notin> set (percent_encode_byte c)"
  using hex_digit_not_special(2,3) [of "of_char c div 16"]
    hex_digit_not_special(2,3) [of "of_char c mod 16"]
  by (simp_all add: percent_encode_byte_def)

lemma urlencoded_byte_no_separator:
  "CHR ''&'' \<notin> set (urlencoded_byte c)" "CHR ''='' \<notin> set (urlencoded_byte c)"
proof -
  consider "c = CHR '' ''" | "c \<noteq> CHR '' ''" "c \<in> set (ascii_alphanumeric @ ''*-._'')"
    | "c \<noteq> CHR '' ''" "c \<notin> set (ascii_alphanumeric @ ''*-._'')"
    by blast
  then have "CHR ''&'' \<notin> set (urlencoded_byte c) \<and> CHR ''='' \<notin> set (urlencoded_byte c)"
  proof cases
    case 1
    then show ?thesis by (simp add: urlencoded_byte_def)
  next
    case 2
    from 2(2) have "c \<noteq> CHR ''&''" "c \<noteq> CHR ''=''"
      by (auto simp: ascii_alphanumeric_def)
    with 2 show ?thesis by (simp add: urlencoded_byte_def)
  next
    case 3
    then have "urlencoded_byte c = percent_encode_byte c"
      by (simp only: urlencoded_byte_def if_False)
    then show ?thesis by (simp only: percent_encode_byte_no_separator simp_thms)
  qed
  then show "CHR ''&'' \<notin> set (urlencoded_byte c)" "CHR ''='' \<notin> set (urlencoded_byte c)"
    by simp_all
qed

lemma urlencoded_string_no_separator:
  "CHR ''&'' \<notin> set (urlencoded_string s)" "CHR ''='' \<notin> set (urlencoded_string s)"
  using urlencoded_byte_no_separator by (auto simp: urlencoded_string_def)

lemma split_on_absent: "d \<notin> set s \<Longrightarrow> split_on d s = [s]"
  by (induction s) auto

lemma parse_callback:
  "urlencoded_parse (''callbackUrl='' @ urlencoded_string v) = [(''callbackUrl'', v)]"
proof -
  have "CHR ''&'' \<notin> set (''callbackUrl='' @ urlencoded_string v)"
    using urlencoded_string_no_separator(1) [of v] by simp
  then have "split_on CHR ''&'' (''callbackUrl='' @ urlencoded_string v) =
      [''callbackUrl='' @ urlencoded_string v]"
    by (rule split_on_absent)
  moreover have "urlencoded_parse_pair (''callbackUrl='' @ urlencoded_string v) =
      (''callbackUrl'', v)"
    by (simp add: urlencoded_parse_pair_def percent_decode_urlencoded_string plus_to_space_def)
  ultimately show ?thesis by (simp add: urlencoded_parse_def)
qed

lemma urlencoded_string_callbackUrl: "urlencoded_string ''callbackUrl'' = ''callbackUrl''"
  by (simp add: urlencoded_string_def urlencoded_byte_def ascii_alphanumeric_def)

lemma set_callbackUrl:
  "searchParams_set ''callbackUrl'' v (new_URL ''/login'' b) =
   \<lparr>url_base = b, url_pathname = ''/login'',
    url_query = Some (''callbackUrl='' @ urlencoded_string v)\<rparr>"
  by (simp add: searchParams_set_def searchParams_def new_URL_def urlencoded_string_callbackUrl)

lemma new_URL_plain:
  "new_URL ''/approval'' b = \<lparr>url_base = b, url_pathname = ''/approval'', url_query = None\<rparr>"
  "new_URL ''/admin'' b = \<lparr>url_base = b, url_pathname = ''/admin'', url_query = None\<rparr>"
  "new_URL ''/agent'' b = \<lparr>url_base = b, url_pathname = ''/agent'', url_query = None\<rparr>"
  "new_URL ''/employee'' b = \<lparr>url_base = b, url_pathname = ''/employee'', url_query = None\<rparr>"
  "new_URL ''/'' b = \<lparr>url_base = b, url_pathname = ''/'', url_query = None\<rparr>"
  by (simp_all add: new_URL_def)

lemma new_URL_inactive:
  "new_URL ''/login?error=Account%20is%20inactive'' b =
   \<lparr>url_base = b, url_pathname = ''/login'',
    url_query = Some ''error=Account%20is%20inactive''\<rparr>"
  by (simp add: new_URL_def)

lemma parse_inactive:
  "urlencoded_parse ''error=Account%20is%20inactive'' = [(''error'', ''Account is inactive'')]"
  by code_simp

section \<open>Route classes and the branches of the middleware\<close>

lemma static_not_public: "isStaticAsset p \<Longrightarrow> \<not> isPublicRoute p"
  by (auto simp: isStaticAsset_def isPublicRoute_def publicRoutes_def prefix_def)

lemma static_not_public_api: "isStaticAsset p \<Longrightarrow> \<not> isPublicApiRoute p"
  by (auto simp: isStaticAsset_def isPublicApiRoute_def publicApiRoutes_def prefix_def)

lemma public_not_public_api: "isPublicRoute p \<Longrightarrow> \<not> isPublicApiRoute p"
  by (auto simp: isPublicRoute_def isPublicApiRoute_def publicApiRoutes_def publicRoutes_def prefix_def)

lemma middleware_protected_None:
  "isProtected (pathname r) \<Longrightarrow>
   middleware r None =
     Redirect (searchParams_set ''callbackUrl'' (encodeURI (url r)) (new_URL ''/login'' (url r)))"
  by (simp add: middleware_def isProtected_def)

lemma middleware_protected_inactive:
  "isProtected (pathname r) \<Longrightarrow> \<not> isActive t \<Longrightarrow>
   middleware r (Some t) = Redirect (new_URL ''/login?error=Account%20is%20inactive'' (url r))"
  by (simp add: middleware_def isProtected_def)

section \<open>Requests without a token on protected paths\<close>

lemma searchParams_callbackUrl:
  "searchParams (searchParams_set ''callbackUrl'' v (new_URL ''/login'' b)) =
   [(''callbackUrl'', v)]"
proof -
  have "searchParams (searchParams_set ''callbackUrl'' v (new_URL ''/login'' b)) =
      urlencoded_parse (''callbackUrl='' @ urlencoded_string v)"
    by (simp only: set_callbackUrl searchParams_def URL.select_convs option.case)
  then show ?thesis by (simp only: parse_callback)
qed

lemma path_and_query_callbackUrl:
  "path_and_query (searchParams_set ''callbackUrl'' v (new_URL ''/login'' b)) =
   ''/login?callbackUrl='' @ urlencoded_string v"
  by (simp add: set_callbackUrl path_and_query_def)

text \<open>
  C1: a request whose path is neither a static asset nor public (not a public page and
  not a public API route) and that carries no token is redirected to \<open>/login\<close>, on the
  origin of the request, with exactly one query parameter, \<open>callbackUrl\<close>, whose value
  is \<open>encodeURI\<close> of the original request URL.
\<close>

theorem protected_without_token:
  assumes "\<not> isStaticAsset (pathname r)"
    and "\<not> isPublicRoute (pathname r)" and "\<not> isPublicApiRoute (pathname r)"
  shows "\<exists>u. middleware r None = Redirect u \<and> url_base u = url r \<and>
           url_pathname u = ''/login'' \<and>
           searchParams u = [(''callbackUrl'', encodeURI (url r))] \<and>
           path_and_query u = ''/login?callbackUrl='' @ urlencoded_string (encodeURI (url r))"
proof (intro exI conjI)
  from assms have "isProtected (pathname r)" by (simp add: isProtected_def)
  then show "middleware r None =
      Redirect (searchParams_set ''callbackUrl'' (encodeURI (url r)) (new_URL ''/login'' (url r)))"
    by (rule middleware_protected_None)
  show "url_base (searchParams_set ''callbackUrl'' (encodeURI (url r)) (new_URL ''/login'' (url r))) = url r"
    by (simp add: set_callbackUrl)
  show "url_pathname (searchParams_set ''callbackUrl'' (encodeURI (url r)) (new_URL ''/login'' (url r))) = ''/login''"
    by (simp add: set_callbackUrl)
  show "searchParams (searchParams_set ''callbackUrl'' (encodeURI (url r)) (new_URL ''/login'' (url r))) =
      [(''callbackUrl'', encodeURI (url r))]"
    by (rule searchParams_callbackUrl)
  show "path_and_query (searchParams_set ''callbackUrl'' (encodeURI (url r)) (new_URL ''/login'' (url r))) =
      ''/login?callbackUrl='' @ urlencoded_string (encodeURI (url r))"
    by (rule path_and_query_callbackUrl)
qed

theorem protected_without_token_witness:
  "\<exists>u. middleware \<lparr>pathname = ''/admin/users'', url = ''http://localhost:3000/admin/users?tab=1''\<rparr> None
          = Redirect u \<and>
        url_pathname u = ''/login'' \<and>
        searchParams u = [(''callbackUrl'', ''http://localhost:3000/admin/users?tab=1'')] \<and>
        path_and_query u =
          ''/login?callbackUrl=http%3A%2F%2Flocalhost%3A3000%2Fadmin%2Fusers%3Ftab%3D1''"
proof -
  let ?r = "\<lparr>pathname = ''/admin/users'', url = ''http://localhost:3000/admin/users?tab=1''\<rparr>"
  have a: "\<not> isStaticAsset (pathname ?r)" by (simp add: isStaticAsset_def)
  have b: "\<not> isPublicRoute (pathname ?r)" by (simp add: isPublicRoute_def publicRoutes_def)
  have c: "\<not> isPublicApiRoute (pathname ?r)"
    by (simp add: isPublicApiRoute_def publicApiRoutes_def)
  have e: "encodeURI ''http://localhost:3000/admin/users?tab=1'' =
      ''http://localhost:3000/admin/users?tab=1''"
    by code_simp
  have f: "urlencoded_string ''http://localhost:3000/admin/users?tab=1'' =
      ''http%3A%2F%2Flocalhost%3A3000%2Fadmin%2Fusers%3Ftab%3D1''"
    by code_simp
  from protected_without_token [OF a b c] obtain u where
    u: "middleware ?r None = Redirect u" "url_pathname u = ''/login''"
      "searchParams u = [(''callbackUrl'', encodeURI (url ?r))]"
      "path_and_query u = ''/login?callbackUrl='' @ urlencoded_string (encodeURI (url ?r))"
    by blast
  from u(3) e have "searchParams u = [(''callbackUrl'', ''http://localhost:3000/admin/users?tab=1'')]"
    by simp
  moreover from u(4) e f have "path_and_query u =
      ''/login?callbackUrl=http%3A%2F%2Flocalhost%3A3000%2Fadmin%2Fusers%3Ftab%3D1''"
    by simp
  ultimately show ?thesis using u(1,2) by blast
qed

section \<open>Logged-in users on the login and register pages\<close>

text \<open>
  C2: on a public path that is \<open>/login\<close> or starts with \<open>/register\<close>, a request with a
  token is redirected: to \<open>/approval\<close> when the role is neither ADMIN nor USER and the
  approval status is not APPROVED, and otherwise to the home of the role (\<open>/admin\<close>,
  \<open>/agent\<close>, \<open>/employee\<close>, and \<open>/\<close> for every other role). In particular an ADMIN token
  on \<open>/login\<close> is redirected to \<open>/admin\<close>.
\<close>

theorem logged_in_on_login_or_register:
  "((isPublicRoute (pathname r) \<or> isPublicApiRoute (pathname r)) \<and>
    (pathname r = ''/login'' \<or> prefix ''/register'' (pathname r)) \<longrightarrow>
    middleware r (Some t) =
      Redirect (new_URL
        (if role t \<noteq> ADMIN \<and> role t \<noteq> USER \<and> approvalStatus t \<noteq> APPROVED
         then ''/approval''
         else (case role t of ADMIN \<Rightarrow> ''/admin'' | AGENT \<Rightarrow> ''/agent''
               | EMPLOYEE \<Rightarrow> ''/employee'' | _ \<Rightarrow> ''/''))
        (url r))) \<and>
   (pathname r = ''/login'' \<and> role t = ADMIN \<longrightarrow>
    middleware r (Some t) = Redirect (new_URL ''/admin'' (url r)))"
proof (intro conjI impI)
  assume h: "(isPublicRoute (pathname r) \<or> isPublicApiRoute (pathname r)) \<and>
    (pathname r = ''/login'' \<or> prefix ''/register'' (pathname r))"
  then have "\<not> isStaticAsset (pathname r)"
    using static_not_public static_not_public_api by blast
  with h show "middleware r (Some t) =
      Redirect (new_URL
        (if role t \<noteq> ADMIN \<and> role t \<noteq> USER \<and> approvalStatus t \<noteq> APPROVED
         then ''/approval''
         else (case role t of ADMIN \<Rightarrow> ''/admin'' | AGENT \<Rightarrow> ''/agent''
               | EMPLOYEE \<Rightarrow> ''/employee'' | _ \<Rightarrow> ''/''))
        (url r))"
    by (cases "role t") (simp_all add: middleware_def)
next
  assume h: "pathname r = ''/login'' \<and> role t = ADMIN"
  then have "isPublicRoute (pathname r)" "\<not> isStaticAsset (pathname r)"
    by (simp_all add: isPublicRoute_def publicRoutes_def isStaticAsset_def)
  with h show "middleware r (Some t) = Redirect (new_URL ''/admin'' (url r))"
    by (simp add: middleware_def)
qed

theorem logged_in_on_login_or_register_witness:
  "middleware \<lparr>pathname = ''/register/agent'', url = ''https://example.org/register/agent''\<rparr>
     (Some \<lparr>role = EMPLOYEE, approvalStatus = OtherStatus ''PENDING'', isActive = True\<rparr>)
     = Redirect (new_URL ''/approval'' ''https://example.org/register/agent'') \<and>
   middleware \<lparr>pathname = ''/login'', url = ''https://example.org/login''\<rparr>
     (Some \<lparr>role = ADMIN, approvalStatus = OtherStatus ''PENDING'', isActive = False\<rparr>)
     = Redirect (new_URL ''/admin'' ''https://example.org/login'')"
proof -
  let ?r = "\<lparr>pathname = ''/register/agent'', url = ''https://example.org/register/agent''\<rparr>"
  let ?t = "\<lparr>role = EMPLOYEE, approvalStatus = OtherStatus ''PENDING'', isActive = True\<rparr>"
  let ?r' = "\<lparr>pathname = ''/login'', url = ''https://example.org/login''\<rparr>"
  let ?t' = "\<lparr>role = ADMIN, approvalStatus = OtherStatus ''PENDING'', isActive = False\<rparr>"
  have p: "isPublicRoute (pathname ?r)" by (simp add: isPublicRoute_def publicRoutes_def)
  have q: "prefix ''/register'' (pathname ?r)" by simp
  from logged_in_on_login_or_register [of ?r ?t] p q
  have 1: "middleware ?r (Some ?t) = Redirect (new_URL ''/approval'' ''https://example.org/register/agent'')"
    by simp
  from logged_in_on_login_or_register [of ?r' ?t']
  have 2: "middleware ?r' (Some ?t') = Redirect (new_URL ''/admin'' ''https://example.org/login'')"
    by simp
  from 1 2 show ?thesis by (rule conjI)
qed

section \<open>Inactive accounts\<close>

text \<open>
  C3: on a path that is neither a static asset nor public, a token whose \<open>isActive\<close> is
  false is redirected to \<open>/login\<close> with the query \<open>error=Account%20is%20inactive\<close>, that
  is the parameter \<open>error\<close> with the value \<open>Account is inactive\<close>, whatever its role
  and approval status are.
\<close>

theorem inactive_account:
  assumes "\<not> isStaticAsset (pathname r)"
    and "\<not> isPublicRoute (pathname r)" and "\<not> isPublicApiRoute (pathname r)"
    and "isActive t = False"
  shows "\<exists>u. middleware r (Some t) = Redirect u \<and> url_base u = url r \<and>
           url_pathname u = ''/login'' \<and>
           searchParams u = [(''error'', ''Account is inactive'')] \<and>
           path_and_query u = ''/login?error=Account%20is%20inactive''"
proof -
  from assms have "isProtected (pathname r)" "\<not> isActive t" by (simp_all add: isProtected_def)
  then have "middleware r (Some t) =
      Redirect (new_URL ''/login?error=Account%20is%20inactive'' (url r))"
    by (rule middleware_protected_inactive)
  then have "middleware r (Some t) =
      Redirect \<lparr>url_base = url r, url_pathname = ''/login'',
        url_query = Some ''error=Account%20is%20inactive''\<rparr>"
    by (simp only: new_URL_inactive)
  moreover have "searchParams \<lparr>url_base = url r, url_pathname = ''/login'',
        url_query = Some ''error=Account%20is%20inactive''\<rparr> =
      [(''error'', ''Account is inactive'')]"
    by (simp only: searchParams_def URL.select_convs option.case parse_inactive)
  ultimately show ?thesis
    by (simp add: path_and_query_def)
qed

theorem inactive_account_witness:
  "\<exists>u. middleware \<lparr>pathname = ''/admin/users'', url = ''https://example.org/admin/users''\<rparr>
          (Some \<lparr>role = ADMIN, approvalStatus = APPROVED, isActive = False\<rparr>) = Redirect u \<and>
        url_base u = ''https://example.org/admin/users'' \<and>
        url_pathname u = ''/login'' \<and>
        searchParams u = [(''error'', ''Account is inactive'')] \<and>
        path_and_query u = ''/login?error=Account%20is%20inactive''"
proof -
  let ?r = "\<lparr>pathname = ''/admin/users'', url = ''https://example.org/admin/users''\<rparr>"
  let ?t = "\<lparr>role = ADMIN, approvalStatus = APPROVED, isActive = False\<rparr>"
  have a: "\<not> isStaticAsset (pathname ?r)" by (simp add: isStaticAsset_def)
  have b: "\<not> isPublicRoute (pathname ?r)" by (simp add: isPublicRoute_def publicRoutes_def)
  have c: "\<not> isPublicApiRoute (pathname ?r)"
    by (simp add: isPublicApiRoute_def publicApiRoutes_def)
  have d: "isActive ?t = False" by simp
  from inactive_account [OF a b c d] show ?thesis by simp
qed

section \<open>Role checks\<close>

text \<open>
  C4 as stated, "every AGENT token on \<open>/employee/dashboard\<close> is redirected to \<open>/\<close>", does
  not hold: the checks of \<open>isActive\<close> and of the approval status come first. An inactive
  AGENT is sent to the login page.
\<close>

theorem agent_on_employee_dashboard_inactive:
  "middleware \<lparr>pathname = ''/employee/dashboard'', url = ''https://example.org/employee/dashboard''\<rparr>
     (Some \<lparr>role = AGENT, approvalStatus = APPROVED, isActive = False\<rparr>) =
   Redirect (new_URL ''/login?error=Account%20is%20inactive'' ''https://example.org/employee/dashboard'') \<and>
   middleware \<lparr>pathname = ''/employee/dashboard'', url = ''https://example.org/employee/dashboard''\<rparr>
     (Some \<lparr>role = AGENT, approvalStatus = APPROVED, isActive = False\<rparr>) \<noteq>
   Redirect (new_URL ''/'' ''https://example.org/employee/dashboard'')"
  by (simp add: middleware_def isStaticAsset_def isPublicRoute_def publicRoutes_def
      isPublicApiRoute_def publicApiRoutes_def new_URL_def)

lemma employee_dashboard_protected: "isProtected ''/employee/dashboard''"
  by (simp add: isProtected_def isStaticAsset_def isPublicRoute_def publicRoutes_def
      isPublicApiRoute_def publicApiRoutes_def)

text \<open>
  C4, amended: an AGENT token on \<open>/employee/dashboard\<close> is redirected to \<open>/\<close> when it is
  active and its approval status is APPROVED; an inactive one is redirected to
  \<open>/login?error=Account%20is%20inactive\<close> and an active one that is not approved to
  \<open>/approval\<close>.
\<close>

theorem agent_on_employee_dashboard:
  assumes "role t = AGENT" and "pathname r = ''/employee/dashboard''"
  shows "middleware r (Some t) =
      Redirect (new_URL
        (if \<not> isActive t then ''/login?error=Account%20is%20inactive''
         else if approvalStatus t \<noteq> APPROVED then ''/approval''
         else ''/'')
        (url r))"
  using assms employee_dashboard_protected
  by (simp add: middleware_def isProtected_def)

theorem agent_on_employee_dashboard_witness:
  "middleware \<lparr>pathname = ''/employee/dashboard'', url = ''https://example.org/employee/dashboard''\<rparr>
     (Some \<lparr>role = AGENT, approvalStatus = APPROVED, isActive = True\<rparr>) =
   Redirect (new_URL ''/'' ''https://example.org/employee/dashboard'')"
  using agent_on_employee_dashboard
    [of "\<lparr>role = AGENT, approvalStatus = APPROVED, isActive = True\<rparr>"
        "\<lparr>pathname = ''/employee/dashboard'', url = ''https://example.org/employee/dashboard''\<rparr>"]
  by simp

section \<open>Static assets\<close>

text \<open>
  C5: a path that begins with one of the static-asset prefixes \<open>/_next\<close>, \<open>/images\<close>,
  \<open>/fonts\<close> or \<open>/favicon\<close> is let through, whatever the token is, also without one.
\<close>

theorem static_asset_allowed:
  assumes "prefix ''/_next'' (pathname r) \<or> prefix ''/images'' (pathname r) \<or>
           prefix ''/fonts'' (pathname r) \<or> prefix ''/favicon'' (pathname r)"
  shows "middleware r tok = Next"
  using assms by (simp add: middleware_def isStaticAsset_def)

theorem static_asset_allowed_witness:
  "middleware \<lparr>pathname = ''/_next/static/chunk.js'',
               url = ''https://example.org/_next/static/chunk.js''\<rparr> None = Next \<and>
   middleware \<lparr>pathname = ''/favicon.ico'', url = ''https://example.org/favicon.ico''\<rparr>
     (Some \<lparr>role = AGENT, approvalStatus = OtherStatus ''PENDING'', isActive = False\<rparr>) = Next"
  using static_asset_allowed
    [of "\<lparr>pathname = ''/_next/static/chunk.js'',
           url = ''https://example.org/_next/static/chunk.js''\<rparr>" None]
    static_asset_allowed
    [of "\<lparr>pathname = ''/favicon.ico'', url = ''https://example.org/favicon.ico''\<rparr>"
        "Some \<lparr>role = AGENT, approvalStatus = OtherStatus ''PENDING'', isActive = False\<rparr>"]
  by simp

section \<open>Classification of paths\<close>

text \<open>
  C6: of the four classes static asset, public page, public API and protected, every path
  is in exactly one: the three tests are pairwise disjoint, and a path that passes none
  of them is protected.
\<close>

theorem route_classification:
  "length (filter (\<lambda>b. b)
     [isStaticAsset p, isPublicRoute p, isPublicApiRoute p, isProtected p]) = 1 \<and>
   \<not> (isStaticAsset p \<and> isPublicRoute p) \<and>
   \<not> (isStaticAsset p \<and> isPublicApiRoute p) \<and>
   \<not> (isPublicRoute p \<and> isPublicApiRoute p) \<and>
   (\<not> isStaticAsset p \<and> \<not> isPublicRoute p \<and> \<not> isPublicApiRoute p \<longrightarrow> isProtected p)"
proof -
  have 1: "\<not> (isStaticAsset p \<and> isPublicRoute p)"
    using static_not_public by blast
  have 2: "\<not> (isStaticAsset p \<and> isPublicApiRoute p)"
    using static_not_public_api by blast
  have 3: "\<not> (isPublicRoute p \<and> isPublicApiRoute p)"
    using public_not_public_api by blast
  have 4: "isProtected p \<longleftrightarrow> \<not> isStaticAsset p \<and> \<not> isPublicRoute p \<and> \<not> isPublicApiRoute p"
    by (simp add: isProtected_def)
  from 1 2 3 4 have "length (filter (\<lambda>b. b)
     [isStaticAsset p, isPublicRoute p, isPublicApiRoute p, isProtected p]) = 1"
    by (cases "isStaticAsset p"; cases "isPublicRoute p"; cases "isPublicApiRoute p") simp_all
  with 1 2 3 4 show ?thesis by blast
qed

theorem route_classification_witness:
  "isStaticAsset ''/images/logo.png'' \<and> isPublicRoute ''/map/nearby'' \<and>
   isPublicApiRoute ''/api/ratings/7'' \<and> isProtected ''/admin/users'' \<and>
   \<not> isPublicRoute ''/images/logo.png'' \<and> \<not> isPublicApiRoute ''/map/nearby'' \<and>
   \<not> isStaticAsset ''/api/ratings/7''"
proof -
  have a: "\<not> isStaticAsset ''/admin/users''" by (simp add: isStaticAsset_def)
  have b: "\<not> isPublicRoute ''/admin/users''" by (simp add: isPublicRoute_def publicRoutes_def)
  have c: "\<not> isPublicApiRoute ''/admin/users''"
    by (simp add: isPublicApiRoute_def publicApiRoutes_def)
  have d: "isStaticAsset ''/images/logo.png''" by (simp add: isStaticAsset_def)
  have e: "isPublicRoute ''/map/nearby''" by (simp add: isPublicRoute_def publicRoutes_def)
  have f: "isPublicApiRoute ''/api/ratings/7''"
    by (simp add: isPublicApiRoute_def publicApiRoutes_def)
  from route_classification [of "''/admin/users''"] a b c
  have "isProtected ''/admin/users''" by blast
  moreover from route_classification [of "''/images/logo.png''"] d
  have "\<not> isPublicRoute ''/images/logo.png''" by blast
  moreover from route_classification [of "''/map/nearby''"] e
  have "\<not> isPublicApiRoute ''/map/nearby''" by blast
  moreover from route_classification [of "''/api/ratings/7''"] f
  have "\<not> isStaticAsset ''/api/ratings/7''" by blast
  ultimately show ?thesis using d e f by blast
qed

section \<open>What the decision depends on\<close>

text \<open>
  C7 as stated, "the decision is a function of the path and the token alone", does not
  hold: the redirect to the login page carries the whole request URL in \<open>callbackUrl\<close>,
  so two requests for the same path that differ in their query string get different
  decisions.
\<close>

theorem same_path_different_decision:
  "pathname \<lparr>pathname = ''/admin/users'', url = ''https://example.org/admin/users?page=1''\<rparr> =
   pathname \<lparr>pathname = ''/admin/users'', url = ''https://example.org/admin/users?page=2''\<rparr> \<and>
   middleware \<lparr>pathname = ''/admin/users'', url = ''https://example.org/admin/users?page=1''\<rparr> None \<noteq>
   middleware \<lparr>pathname = ''/admin/users'', url = ''https://example.org/admin/users?page=2''\<rparr> None"
  by (simp add: middleware_def isStaticAsset_def isPublicRoute_def publicRoutes_def
      isPublicApiRoute_def publicApiRoutes_def set_callbackUrl)

lemma redirect_path_middleware:
  "redirect_path (middleware r tok) =
   redirect_path (middleware \<lparr>pathname = pathname r, url = []\<rparr> tok)"
  by (simp add: middleware_def redirect_path_def new_URL_plain new_URL_inactive set_callbackUrl
      split: option.split)

lemma redirect_location_middleware:
  assumes "tok \<noteq> None \<or> \<not> isProtected (pathname r)"
  shows "redirect_location (middleware r tok) =
         redirect_location (middleware \<lparr>pathname = pathname r, url = []\<rparr> tok)"
proof (cases tok)
  case None
  with assms have "isStaticAsset (pathname r) \<or> isPublicRoute (pathname r) \<or>
      isPublicApiRoute (pathname r)"
    by (simp add: isProtected_def)
  with None show ?thesis by (auto simp: middleware_def)
next
  case (Some t)
  then show ?thesis
    by (simp add: middleware_def redirect_location_def path_and_query_def new_URL_plain
        new_URL_inactive)
qed

text \<open>
  C7, amended: for the same path and the same token state (also without a token), two
  evaluations yield the same kind of decision and the same redirect path, whatever else
  the two requests carry; when a token is present or the path is not protected they also
  yield the same query, so that the two redirects differ at most in the origin they take
  from the request URL. Only the redirect of a request without a token to the login page
  depends on the request URL beyond that, through \<open>callbackUrl\<close>.
\<close>

theorem decision_depends_on_path_token:
  fixes r :: "'a request_scheme" and r' :: "'b request_scheme"
  assumes "pathname r = pathname r'"
  shows "redirect_path (middleware r tok) = redirect_path (middleware r' tok) \<and>
         (tok \<noteq> None \<or> \<not> isProtected (pathname r) \<longrightarrow>
          redirect_location (middleware r tok) = redirect_location (middleware r' tok))"
proof (intro conjI impI)
  from assms show "redirect_path (middleware r tok) = redirect_path (middleware r' tok)"
    using redirect_path_middleware [of r tok] redirect_path_middleware [of r' tok] by simp
next
  assume h: "tok \<noteq> None \<or> \<not> isProtected (pathname r)"
  with assms have h': "tok \<noteq> None \<or> \<not> isProtected (pathname r')" by simp
  from assms redirect_location_middleware [OF h] redirect_location_middleware [OF h']
  show "redirect_location (middleware r tok) = redirect_location (middleware r' tok)"
    by simp
qed

theorem decision_depends_on_path_token_witness:
  "redirect_path (middleware \<lparr>pathname = ''/admin/users'', url = ''https://example.org/admin/users?page=1''\<rparr> None) =
   redirect_path (middleware \<lparr>pathname = ''/admin/users'', url = ''https://example.org/admin/users?page=2''\<rparr> None) \<and>
   redirect_location (middleware \<lparr>pathname = ''/admin/users'', url = ''https://example.org/admin/users?page=1''\<rparr>
     (Some \<lparr>role = AGENT, approvalStatus = APPROVED, isActive = True\<rparr>)) =
   redirect_location (middleware \<lparr>pathname = ''/admin/users'', url = ''http://localhost:3000/admin/users?page=2'', \<dots> = True\<rparr>
     (Some \<lparr>role = AGENT, approvalStatus = APPROVED, isActive = True\<rparr>))"
proof -
  let ?r1 = "\<lparr>pathname = ''/admin/users'', url = ''https://example.org/admin/users?page=1''\<rparr>"
  let ?r2 = "\<lparr>pathname = ''/admin/users'', url = ''https://example.org/admin/users?page=2''\<rparr>"
  let ?r3 = "\<lparr>pathname = ''/admin/users'', url = ''http://localhost:3000/admin/users?page=2'', \<dots> = True\<rparr>"
  let ?t = "\<lparr>role = AGENT, approvalStatus = APPROVED, isActive = True\<rparr>"
  have "pathname ?r1 = pathname ?r2" by simp
  from decision_depends_on_path_token [OF this, of None]
  have 1: "redirect_path (middleware ?r1 None) = redirect_path (middleware ?r2 None)" by blast
  have "pathname ?r1 = pathname ?r3" by simp
  from decision_depends_on_path_token [OF this, of "Some ?t"]
  have 2: "redirect_location (middleware ?r1 (Some ?t)) =
      redirect_location (middleware ?r3 (Some ?t))"
    by simp
  from 1 2 show ?thesis by (rule conjI)
qed

section \<open>The approval page\<close>

text \<open>
  C8: a request for \<open>/approval\<close>, or for a path under \<open>/approval/\<close>, is let through for
  every token and also without one, so the target of the approval redirect never
  redirects again.
\<close>

theorem approval_always_allowed:
  assumes "pathname r = ''/approval'' \<or> prefix ''/approval/'' (pathname r)"
  shows "middleware r tok = Next"
proof -
  from assms have "isPublicRoute (pathname r)"
    by (auto simp: isPublicRoute_def publicRoutes_def)
  moreover from assms have "\<not> isStaticAsset (pathname r)"
    by (auto simp: isStaticAsset_def prefix_def)
  moreover from assms have "pathname r \<noteq> ''/login''" "\<not> prefix ''/register'' (pathname r)"
    by (auto simp: prefix_def)
  ultimately show ?thesis
    by (simp add: middleware_def split: option.split)
qed

theorem approval_always_allowed_witness:
  "middleware \<lparr>pathname = ''/approval'', url = ''https://example.org/approval''\<rparr>
     (Some \<lparr>role = AGENT, approvalStatus = OtherStatus ''PENDING'', isActive = False\<rparr>) = Next \<and>
   middleware \<lparr>pathname = ''/approval/status'', url = ''https://example.org/approval/status''\<rparr>
     None = Next"
proof -
  let ?r = "\<lparr>pathname = ''/approval'', url = ''https://example.org/approval''\<rparr>"
  let ?r' = "\<lparr>pathname = ''/approval/status'', url = ''https://example.org/approval/status''\<rparr>"
  have "pathname ?r = ''/approval'' \<or> prefix ''/approval/'' (pathname ?r)" by simp
  then have 1: "middleware ?r
      (Some \<lparr>role = AGENT, approvalStatus = OtherStatus ''PENDING'', isActive = False\<rparr>) = Next"
    by (rule approval_always_allowed)
  have "pathname ?r' = ''/approval'' \<or> prefix ''/approval/'' (pathname ?r')" by simp
  then have 2: "middleware ?r' None = Next"
    by (rule approval_always_allowed)
  from 1 2 show ?thesis by (rule conjI)
qed

section \<open>Paths that begin with two slashes\<close>

text \<open>
  C9: a path that begins with two slashes is a public page, because the route \<open>/\<close>
  followed by a slash is a prefix of it; without a token it is let through instead of
  being sent to the login page, and with any token it is let through too, so the role
  checks are not reached.
\<close>

theorem double_slash_public:
  assumes "prefix ''//'' (pathname r)"
  shows "isPublicRoute (pathname r) \<and> middleware r None = Next \<and> middleware r tok = Next"
proof -
  from assms have p: "isPublicRoute (pathname r)"
    by (simp add: isPublicRoute_def publicRoutes_def)
  from assms have "\<not> isStaticAsset (pathname r)"
    by (auto simp: isStaticAsset_def prefix_def)
  moreover from assms have "pathname r \<noteq> ''/login''" "\<not> prefix ''/register'' (pathname r)"
    by (auto simp: prefix_def)
  ultimately have "middleware r tok' = Next" for tok'
    using p by (simp add: middleware_def split: option.split)
  with p show ?thesis by simp
qed

theorem double_slash_public_witness:
  "isPublicRoute ''//admin/x'' \<and>
   middleware \<lparr>pathname = ''//admin/x'', url = ''https://example.org//admin/x''\<rparr> None = Next \<and>
   middleware \<lparr>pathname = ''//admin/x'', url = ''https://example.org//admin/x''\<rparr>
     (Some \<lparr>role = AGENT, approvalStatus = OtherStatus ''PENDING'', isActive = False\<rparr>) = Next"
  using double_slash_public
    [of "\<lparr>pathname = ''//admin/x'', url = ''https://example.org//admin/x''\<rparr>"
        "Some \<lparr>role = AGENT, approvalStatus = OtherStatus ''PENDING'', isActive = False\<rparr>"]
  by simp

section \<open>Redirect targets\<close>

lemma middleware_cases:
  "middleware r tok \<in>
     {Next,
      Redirect (new_URL ''/approval'' (url r)),
      Redirect (new_URL ''/admin'' (url r)),
      Redirect (new_URL ''/agent'' (url r)),
      Redirect (new_URL ''/employee'' (url r)),
      Redirect (new_URL ''/'' (url r)),
      Redirect (searchParams_set ''callbackUrl'' (encodeURI (url r)) (new_URL ''/login'' (url r))),
      Redirect (new_URL ''/login?error=Account%20is%20inactive'' (url r))}"
  by (simp add: middleware_def split: option.split)

text \<open>
  C10: every decision is either \<open>Next\<close> or a redirect, on the origin of the request, to
  one of the six paths \<open>/login\<close>, \<open>/approval\<close>, \<open>/admin\<close>, \<open>/agent\<close>, \<open>/employee\<close> and
  \<open>/\<close>; only the redirect to \<open>/login\<close> has a query, and its one parameter is
  \<open>callbackUrl\<close> or \<open>error\<close>.
\<close>

theorem redirect_targets:
  "middleware r tok = Next \<or>
   (\<exists>u. middleware r tok = Redirect u \<and> url_base u = url r \<and>
      url_pathname u \<in> {''/login'', ''/approval'', ''/admin'', ''/agent'', ''/employee'', ''/''} \<and>
      (url_query u = None \<or>
       url_pathname u = ''/login'' \<and>
       (map fst (searchParams u) = [''callbackUrl''] \<or> map fst (searchParams u) = [''error''])))"
proof -
  let ?P = "\<lambda>u. url_base u = url r \<and>
      url_pathname u \<in> {''/login'', ''/approval'', ''/admin'', ''/agent'', ''/employee'', ''/''} \<and>
      (url_query u = None \<or>
       url_pathname u = ''/login'' \<and>
       (map fst (searchParams u) = [''callbackUrl''] \<or> map fst (searchParams u) = [''error'']))"
  have plain: "?P (new_URL ''/approval'' (url r))" "?P (new_URL ''/admin'' (url r))"
    "?P (new_URL ''/agent'' (url r))" "?P (new_URL ''/employee'' (url r))"
    "?P (new_URL ''/'' (url r))"
    by (simp_all add: new_URL_plain)
  have cb: "?P (searchParams_set ''callbackUrl'' (encodeURI (url r)) (new_URL ''/login'' (url r)))"
    by (simp add: searchParams_callbackUrl) (simp add: set_callbackUrl)
  have "searchParams (new_URL ''/login?error=Account%20is%20inactive'' (url r)) =
      [(''error'', ''Account is inactive'')]"
    by (simp only: new_URL_inactive searchParams_def URL.select_convs option.case parse_inactive)
  then have err: "?P (new_URL ''/login?error=Account%20is%20inactive'' (url r))"
    by (simp add: new_URL_inactive)
  from middleware_cases [of r tok] plain cb err show ?thesis
    by (elim insertE emptyE) (simp_all only: decision.inject ex_simps simp_thms)
qed

end
